theory Spec2Isabelle
  imports Main
begin

section \<open>JavaScript string primitives used by the link checker\<close>

text \<open>
  Strings are lists of characters. The scripts only inspect the ASCII characters
  \<open>/\<close> and \<open>$\<close> and the prefixes \<open>http://\<close>, \<open>https://\<close>, so the
  difference between UTF-16 code units and bytes plays no role below.
\<close>

definition starts_with :: "string \<Rightarrow> string \<Rightarrow> bool" where
  "starts_with p s = (take (length p) s = p)"

text \<open>The test \<^verbatim>\<open>/^https?:\/\//.test(href)\<close> of \<open>checkLink\<close>.\<close>

definition is_fully_qualified :: "string \<Rightarrow> bool" where
  "is_fully_qualified href = (starts_with ''http://'' href \<or> starts_with ''https://'' href)"

text \<open>The test \<^verbatim>\<open>/^\//.test(to)\<close> of \<open>resolvePath\<close>.\<close>

definition is_absolute_path :: "string \<Rightarrow> bool" where
  "is_absolute_path to = starts_with ''/'' to"

text \<open>
  The regular expression \<^verbatim>\<open>/\/?[^/]+$/\<close> tried at the first character of \<open>s\<close>:
  an optional slash, then one or more characters other than a slash, then the end of
  the input. The optional slash is greedy; giving it back never helps, because the
  character class cannot consume a slash.
\<close>

definition segment_matches_here :: "string \<Rightarrow> bool" where
  "segment_matches_here s =
     (case s of
        [] \<Rightarrow> False
      | c # cs \<Rightarrow>
          if c = CHR ''/'' \<and> cs \<noteq> [] \<and> CHR ''/'' \<notin> set cs then True
          else CHR ''/'' \<notin> set s)"

text \<open>
  The search of \<open>String.prototype.replace\<close> for a pattern without the global flag:
  the start positions are tried from left to right and the first match wins. The
  result is the text before the match and the match itself (which runs to the end of
  the input, the pattern ending in \<open>$\<close>).
\<close>

fun regex_search :: "string \<Rightarrow> string \<Rightarrow> (string \<times> string) option" where
  "regex_search pre [] = None"
| "regex_search pre (c # cs) =
     (if segment_matches_here (c # cs) then Some (pre, c # cs)
      else regex_search (pre @ [c]) cs)"

text \<open>
  The replacement text of \<open>String.prototype.replace\<close> is a template: \<open>$$\<close> stands for
  a dollar sign, \<open>$&\<close> for the matched text, a dollar sign followed by a backquote for
  the text before the match and a dollar sign followed by a quote for the text after
  it. The pattern has no capture group, so \<open>$1\<close> to \<open>$99\<close> and \<open>$<\<close> are kept as
  they are, like every other character.
\<close>

fun GetSubstitution :: "string \<Rightarrow> string \<Rightarrow> string \<Rightarrow> string \<Rightarrow> string" where
  "GetSubstitution matched pre post (c # d # r) =
     (if c = CHR ''$'' then
        (if d = CHR ''$'' then CHR ''$'' # GetSubstitution matched pre post r
         else if d = CHR ''&'' then matched @ GetSubstitution matched pre post r
         else if d = CHR 0x60 then pre @ GetSubstitution matched pre post r
         else if d = CHR 0x27 then post @ GetSubstitution matched pre post r
         else c # GetSubstitution matched pre post (d # r))
      else c # GetSubstitution matched pre post (d # r))"
| "GetSubstitution matched pre post r = r"

text \<open>\<^verbatim>\<open>from.replace(/\/?[^/]+$/, replacement)\<close>; without a match the string is returned unchanged.\<close>

definition replace_last_segment :: "string \<Rightarrow> string \<Rightarrow> string" where
  "replace_last_segment from replacement =
     (case regex_search [] from of
        None \<Rightarrow> from
      | Some (pre, matched) \<Rightarrow> pre @ GetSubstitution matched pre [] replacement)"


section \<open>Path resolution (part\_000, lines 151 to 164)\<close>

definition resolvePath :: "string \<Rightarrow> string \<Rightarrow> string" where
  "resolvePath from to =
     (if is_absolute_path to then to
      else replace_last_segment from (''/'' @ to))"

text \<open>
  The resolution rule in the words of the specification: the last path segment of the
  source file is replaced by the href and the directory prefix (everything up to and
  including the last slash) is preserved.
\<close>

definition directory_prefix :: "string \<Rightarrow> string" where
  "directory_prefix sourceFile = rev (dropWhile (\<lambda>c. c \<noteq> CHR ''/'') (rev sourceFile))"

definition resolve_as_specified :: "string \<Rightarrow> string \<Rightarrow> string" where
  "resolve_as_specified sourceFile href = directory_prefix sourceFile @ href"


section \<open>The environment of a run\<close>

text \<open>
  A value thrown by JavaScript: the \<open>TypeError\<close> of the language itself (reading a
  property of \<open>undefined\<close>), the \<open>SyntaxError\<close> of \<open>new RegExp\<close> on an invalid
  pattern, or a rejection that comes from a collaborator (glob, the file system, the
  browser cluster, node-fetch).
\<close>

datatype js_error = TypeError | SyntaxError | Rejected string

text \<open>
  A compiled regular expression, as far as \<open>String.prototype.replace\<close> uses it: the
  index and the length of the first match in a string, if there is one.
\<close>

type_synonym regexp = "string \<Rightarrow> (nat \<times> nat) option"

text \<open>
  Everything the scripts read from outside: the three environment variables, and the
  external capabilities as functions. \<open>getFiles\<close> is the glob result, \<open>launch\<close> the
  failure of \<open>Cluster.launch\<close> if there is one, \<open>markdownLinkExtractor\<close> yields the
  hrefs in order of appearance. \<open>execute\<close> is \<open>cluster.execute\<close> followed by
  \<open>response.status()\<close>: the page navigation either throws or yields a response with a
  numeric status. \<open>fetch\<close> is the HEAD request of node-fetch, which rejects on a
  network failure and otherwise yields the status of the response. \<open>regExpEngine\<close> is
  \<open>new RegExp\<close> on a pattern source that contains syntax characters: it throws on an
  invalid pattern and compiles a valid one.
\<close>

record env =
  root :: string
  repo :: string
  sha :: string
  getFiles :: "js_error + string list"
  launch :: "js_error option"
  readFile :: "string \<Rightarrow> js_error + string"
  markdownLinkExtractor :: "string \<Rightarrow> string list"
  execute :: "string \<Rightarrow> js_error + int"
  fetch :: "string \<Rightarrow> js_error + int"
  regExpEngine :: "string \<Rightarrow> js_error + regexp"

definition githubUrlFromPath :: "env \<Rightarrow> string \<Rightarrow> string" where
  "githubUrlFromPath e path = ''https://github.com/'' @ repo e @ ''/blob/'' @ sha e @ ''/'' @ path"

text \<open>The syntax characters of a regular expression: \<^verbatim>\<open>^ $ \ . * + ? ( ) [ ] { } |\<close>.\<close>

definition syntax_characters :: string where
  "syntax_characters =
     [CHR ''^'', CHR ''$'', CHR 0x5C, CHR ''.'', CHR ''*'', CHR ''+'', CHR ''?'',
      CHR ''('', CHR '')'', CHR ''['', CHR '']'', CHR ''{'', CHR ''}'', CHR ''|'']"

text \<open>
  \<^verbatim>\<open>new RegExp(`^${root}\\/`)\<close> (line 114): the root is spliced into the pattern source
  unescaped. A root without syntax characters gives a pattern that matches exactly
  the literal prefix \<open>root/\<close> at the start of the string. Any other root is compiled by
  the engine of the environment, which may throw.
\<close>

definition rootRegExp :: "env \<Rightarrow> js_error + regexp" where
  "rootRegExp e =
     (if list_all (\<lambda>c. c \<notin> set syntax_characters) (root e) then
        Inr (\<lambda>path. if starts_with (root e @ ''/'') path then Some (0, length (root e) + 1)
                     else None)
      else regExpEngine e (''^'' @ root e @ [CHR 0x5C, CHR ''/'']))"

text \<open>\<^verbatim>\<open>path.replace(pattern, "")\<close>: the first match is cut out of the string.\<close>

definition remove_match :: "regexp \<Rightarrow> string \<Rightarrow> string" where
  "remove_match pattern path =
     (case pattern path of
        None \<Rightarrow> path
      | Some (i, n) \<Rightarrow> take i path @ drop (i + n) path)"

text \<open>\<open>stripRoot\<close> of a string (line 114); it throws what \<open>new RegExp\<close> throws.\<close>

definition stripRoot :: "env \<Rightarrow> string \<Rightarrow> js_error + string" where
  "stripRoot e path =
     (case rootRegExp e of
        Inl syntaxError \<Rightarrow> Inl syntaxError
      | Inr pattern \<Rightarrow> Inr (remove_match pattern path))"


section \<open>Checking one link (part\_000, lines 116 to 149)\<close>

text \<open>
  The object that \<open>checkLink\<close> resolves with. A property that an object literal does
  not write is \<open>None\<close> (JavaScript reads it as \<open>undefined\<close>). The property \<open>file\<close> (written \<open>file'\<close> here) is
  the one the summary loop of \<open>main\<close> reads; neither object literal of \<open>checkLink\<close>
  writes it.
\<close>

record outcome =
  status :: "int option"
  original :: string
  error :: "js_error option"
  file' :: "string option"

datatype call = Execute string | Fetch string

text \<open>Lines 121 to 124: the address that is handed to both strategies.\<close>

definition target_url :: "env \<Rightarrow> string \<Rightarrow> string \<Rightarrow> string" where
  "target_url e path href =
     (if \<not> is_fully_qualified href then githubUrlFromPath e (resolvePath path href) else href)"

text \<open>
  The result is the list of requests made, in order, and the settlement of the promise:
  \<open>Inr\<close> the object it resolves with, \<open>Inl\<close> the reason it rejects with.
\<close>

definition checkLink :: "env \<Rightarrow> string \<Rightarrow> string \<Rightarrow> call list \<times> (js_error + outcome)" where
  "checkLink e path href =
     (let url = target_url e path href in
      case execute e url of
        Inr s \<Rightarrow>
          ([Execute url],
           Inr \<lparr>status = Some s, original = href, error = None, file' = None\<rparr>)
      | Inl puppeteerError \<Rightarrow>
          (case fetch e url of
             Inr s \<Rightarrow>
               ([Execute url, Fetch url],
                Inr \<lparr>status = Some s, original = href, error = Some puppeteerError, file' = None\<rparr>)
           | Inl fetchError \<Rightarrow> ([Execute url, Fetch url], Inl fetchError)))"


section \<open>Classification and the per-file report (part\_000, lines 53 to 78)\<close>

text \<open>A relational comparison with \<open>undefined\<close> is false in JavaScript.\<close>

definition js_lt :: "int option \<Rightarrow> int \<Rightarrow> bool" where
  "js_lt v n = (case v of None \<Rightarrow> False | Some s \<Rightarrow> s < n)"

definition js_ge :: "int option \<Rightarrow> int \<Rightarrow> bool" where
  "js_ge v n = (case v of None \<Rightarrow> False | Some s \<Rightarrow> s \<ge> n)"

text \<open>The condition \<^verbatim>\<open>status < 200 || status >= 300\<close>.\<close>

definition is_failure :: "int option \<Rightarrow> bool" where
  "is_failure s = (js_lt s 200 \<or> js_ge s 300)"

text \<open>
  One constructor for each \<open>console.log\<close> call, with the interpolated values as
  arguments. \<open>Table\<close> is the rendered table, a list of rows below the heading
  HTTP, Link, File.
\<close>

datatype console =
    Separator
  | Searching string
  | Found nat
  | Setup nat
  | Starting
  | FileHeader nat string nat
  | LinkFail "int option" string
  | PuppeteerError js_error
  | LinkOk "int option" string
  | SummaryOfErrors
  | Table "(int option \<times> string \<times> string) list"
  | Complete nat nat nat nat
  | Exiting js_error

text \<open>The variables of \<open>main\<close> that the concurrent tasks share, and the console.\<close>

record run_state =
  out :: "console list"
  countAllLinks :: nat
  countFiles :: nat
  allErrors :: "outcome list"

definition log :: "console list \<Rightarrow> run_state \<Rightarrow> run_state" where
  "log ls st = st\<lparr>out := out st @ ls\<rparr>"

text \<open>
  The \<open>forEach\<close> over the settled checks of one file (lines 66 to 77). A rejected
  check has no \<open>value\<close>, so destructuring it throws a \<open>TypeError\<close>, which ends the loop;
  what was logged and pushed before stays.
\<close>

fun report_checks :: "(js_error + outcome) list \<Rightarrow> run_state \<Rightarrow> run_state \<times> js_error option" where
  "report_checks [] st = (st, None)"
| "report_checks (Inl reason # rest) st = (st, Some TypeError)"
| "report_checks (Inr v # rest) st =
     report_checks rest
       (if is_failure (status v) then
          (log ([LinkFail (status v) (original v)] @
                (case error v of Some e \<Rightarrow> [PuppeteerError e] | None \<Rightarrow> [])) st)
            \<lparr>allErrors := allErrors st @ [v]\<rparr>
        else log [LinkOk (status v) (original v)] st)"

text \<open>
  The task of one file (lines 53 to 78). Its rejection, by \<open>readFile\<close>, by
  \<open>stripRoot\<close> on line 58 or by the \<open>forEach\<close>, is absorbed by \<open>Promise.allSettled\<close>;
  the state it leaves is what counts. \<open>stripRoot(file)\<close> on line 64 yields what it
  yielded on line 58.
\<close>

definition file_task :: "env \<Rightarrow> run_state \<Rightarrow> string \<Rightarrow> run_state" where
  "file_task e st path =
     (case readFile e path of
        Inl readError \<Rightarrow> st
      | Inr markdown \<Rightarrow>
          (let links = markdownLinkExtractor e markdown;
               countFileLinks = length links;
               st1 = st\<lparr>countAllLinks := countAllLinks st + countFileLinks\<rparr>
           in case stripRoot e path of
                Inl syntaxError \<Rightarrow> st1
              | Inr stripped \<Rightarrow>
                  (let completeChecks = map (\<lambda>href. snd (checkLink e stripped href)) links;
                       st2 = (log [FileHeader (countFiles st1) stripped countFileLinks] st1)
                               \<lparr>countFiles := countFiles st1 + 1\<rparr>
                   in fst (report_checks completeChecks st2))))"


section \<open>The summary (part\_000, lines 83 to 101 and 166 to 180)\<close>

definition summaryEllipsis :: string where
  "summaryEllipsis = ''......''"

definition summaryLinkMaxLength :: nat where
  "summaryLinkMaxLength = length (''https://d2mxu07abcdefg'' @ summaryEllipsis @ ''+at+2.24.55+PM.png'')"

text \<open>The division by two is exact: the maximal length is 46 and the ellipsis has 6 characters.\<close>

definition summarizeLink :: "string \<Rightarrow> string" where
  "summarizeLink link =
     (let len = length link in
      if len \<le> summaryLinkMaxLength then link
      else
        (let half = (summaryLinkMaxLength - length summaryEllipsis) div 2
         in take half link @ summaryEllipsis @ drop (len - half) link))"

text \<open>
  \<open>stripRoot\<close> applied to a property that may be absent: reading \<open>replace\<close> of
  \<open>undefined\<close> throws before the pattern is built.
\<close>

definition stripRoot_of :: "env \<Rightarrow> string option \<Rightarrow> js_error + string" where
  "stripRoot_of e p = (case p of None \<Rightarrow> Inl TypeError | Some path \<Rightarrow> stripRoot e path)"

text \<open>The \<open>forEach\<close> over \<open>allErrors\<close> that fills the table (lines 90 to 93).\<close>

fun add_rows :: "env \<Rightarrow> outcome list \<Rightarrow> (int option \<times> string \<times> string) list
    \<Rightarrow> js_error + (int option \<times> string \<times> string) list" where
  "add_rows e [] rows = Inr rows"
| "add_rows e (v # rest) rows =
     (case stripRoot_of e (file' v) of
        Inl err \<Rightarrow> Inl err
      | Inr shown \<Rightarrow> add_rows e rest (rows @ [(status v, summarizeLink (original v), shown)]))"

definition clusterMaxConcurrent :: nat where
  "clusterMaxConcurrent = 10"

definition initial_state :: run_state where
  "initial_state = \<lparr>out = [], countAllLinks = 0, countFiles = 1, allErrors = []\<rparr>"

text \<open>
  A rejection of \<open>main\<close> reaches the handler of \<open>unhandledRejection\<close> (lines 19 to 22),
  which logs it and exits with code 1.
\<close>

definition unhandledRejection :: "js_error \<Rightarrow> run_state \<Rightarrow> run_state \<times> int" where
  "unhandledRejection err st = (log [Exiting err] st, 1)"

text \<open>
  The run. All file tasks start at once and finish in an order the scheduler and the
  network decide; \<open>order\<close> lists the indices of the discovered files in the order in
  which their tasks finish. The part of a task after its last \<open>await\<close> runs without
  interruption, and the shared counters are only read after all tasks have settled,
  so running the tasks one after the other in that order leaves the same state.
  The result is the final state and the exit code of the process.
\<close>

definition main :: "env \<Rightarrow> nat list \<Rightarrow> run_state \<times> int" where
  "main e order =
     (let st0 = log [Separator, Searching (root e)] initial_state in
      case getFiles e of
        Inl globError \<Rightarrow> unhandledRejection globError st0
      | Inr files \<Rightarrow>
          (let st1 = log [Found (length files), Separator, Setup clusterMaxConcurrent] st0 in
           case launch e of
             Some launchError \<Rightarrow> unhandledRejection launchError st1
           | None \<Rightarrow>
               (let st2 = log [Starting] st1;
                    st3 = foldl (file_task e) st2 (map (\<lambda>i. files ! i) order);
                    results = files;
                    st4 = log [SummaryOfErrors] st3
                in case add_rows e (allErrors st4) [] of
                     Inl err \<Rightarrow> unhandledRejection err st4
                   | Inr rows \<Rightarrow>
                       (log [Table rows, Separator,
                             Complete (countAllLinks st4) (length results)
                               (length (allErrors st4)) (countAllLinks st4)] st4,
                        0))))"

text \<open>An order of completion names every discovered file once.\<close>

definition is_completion_order :: "nat \<Rightarrow> nat list \<Rightarrow> bool" where
  "is_completion_order n order = (sort order = [0..<n])"

text \<open>The files of the per-file sections of a console, in the order they were printed.\<close>

fun sections :: "console list \<Rightarrow> string list" where
  "sections [] = []"
| "sections (FileHeader k path n # rest) = path # sections rest"
| "sections (other # rest) = sections rest"

text \<open>The numbers printed in front of the per-file sections, in the same order.\<close>

fun section_numbers :: "console list \<Rightarrow> nat list" where
  "section_numbers [] = []"
| "section_numbers (FileHeader k path n # rest) = k # section_numbers rest"
| "section_numbers (other # rest) = section_numbers rest"


section \<open>The earlier revision with an error counter (part\_001, lines 1 to 127)\<close>

text \<open>
  \<open>checkLink\<close> of this revision resolves the address in the same way; both object
  literals have the properties \<open>status\<close> and \<open>original\<close> only.
\<close>

definition checkLink_part_001 :: "env \<Rightarrow> string \<Rightarrow> string \<Rightarrow> call list \<times> (js_error + outcome)" where
  "checkLink_part_001 e path href =
     (let url = target_url e path href in
      case execute e url of
        Inr s \<Rightarrow>
          ([Execute url],
           Inr \<lparr>status = Some s, original = href, error = None, file' = None\<rparr>)
      | Inl puppeteerError \<Rightarrow>
          (case fetch e url of
             Inr s \<Rightarrow>
               ([Execute url, Fetch url],
                Inr \<lparr>status = Some s, original = href, error = None, file' = None\<rparr>)
           | Inl fetchError \<Rightarrow> ([Execute url, Fetch url], Inl fetchError)))"

record run_state_part_001 =
  out_part_001 :: "console list"
  countAllLinks_part_001 :: nat
  countErrors :: nat
  countFiles_part_001 :: nat

definition log_part_001 :: "console list \<Rightarrow> run_state_part_001 \<Rightarrow> run_state_part_001" where
  "log_part_001 ls st = st\<lparr>out_part_001 := out_part_001 st @ ls\<rparr>"

text \<open>The \<open>forEach\<close> of lines 60 to 68: the counter is incremented in the \<open>else\<close> branch.\<close>

fun report_checks_part_001 ::
    "(js_error + outcome) list \<Rightarrow> run_state_part_001 \<Rightarrow> run_state_part_001 \<times> js_error option" where
  "report_checks_part_001 [] st = (st, None)"
| "report_checks_part_001 (Inl reason # rest) st = (st, Some TypeError)"
| "report_checks_part_001 (Inr v # rest) st =
     report_checks_part_001 rest
       (if is_failure (status v) then log_part_001 [LinkFail (status v) (original v)] st
        else (log_part_001 [LinkOk (status v) (original v)] st)
               \<lparr>countErrors := countErrors st + 1\<rparr>)"

definition file_task_part_001 :: "env \<Rightarrow> run_state_part_001 \<Rightarrow> string \<Rightarrow> run_state_part_001" where
  "file_task_part_001 e st path =
     (case readFile e path of
        Inl readError \<Rightarrow> st
      | Inr markdown \<Rightarrow>
          (let links = markdownLinkExtractor e markdown;
               countFileLinks = length links;
               st1 = st\<lparr>countAllLinks_part_001 := countAllLinks_part_001 st + countFileLinks\<rparr>
           in case stripRoot e path of
                Inl syntaxError \<Rightarrow> st1
              | Inr stripped \<Rightarrow>
                  (let completeChecks =
                         map (\<lambda>href. snd (checkLink_part_001 e stripped href)) links;
                       st2 = (log_part_001
                                [FileHeader (countFiles_part_001 st1) stripped countFileLinks] st1)
                               \<lparr>countFiles_part_001 := countFiles_part_001 st1 + 1\<rparr>
                   in fst (report_checks_part_001 completeChecks st2))))"

definition initial_state_part_001 :: run_state_part_001 where
  "initial_state_part_001 =
     \<lparr>out_part_001 = [], countAllLinks_part_001 = 0, countErrors = 0, countFiles_part_001 = 1\<rparr>"

definition unhandledRejection_part_001 ::
    "js_error \<Rightarrow> run_state_part_001 \<Rightarrow> run_state_part_001 \<times> int" where
  "unhandledRejection_part_001 err st = (log_part_001 [Exiting err] st, 1)"

definition main_part_001 :: "env \<Rightarrow> nat list \<Rightarrow> run_state_part_001 \<times> int" where
  "main_part_001 e order =
     (let st0 = log_part_001 [Separator, Searching (root e)] initial_state_part_001 in
      case getFiles e of
        Inl globError \<Rightarrow> unhandledRejection_part_001 globError st0
      | Inr files \<Rightarrow>
          (let st1 = log_part_001 [Found (length files), Separator, Setup clusterMaxConcurrent] st0 in
           case launch e of
             Some launchError \<Rightarrow> unhandledRejection_part_001 launchError st1
           | None \<Rightarrow>
               (let st2 = log_part_001 [Starting] st1;
                    st3 = foldl (file_task_part_001 e) st2 (map (\<lambda>i. files ! i) order);
                    results = files
                in (log_part_001
                      [Separator,
                       Complete (countAllLinks_part_001 st3) (length results)
                         (countErrors st3) (countAllLinks_part_001 st3)] st3,
                    0))))"


section \<open>Example environments\<close>

text \<open>
  A repository with the two files of the end-to-end scenario of the specification:
  \<open>a.md\<close> has an absolute link that answers 200 and a relative link whose repository
  address answers 404, \<open>b.md\<close> has no link. Every other address fails in both strategies.
  The root has no syntax character, so the engine of the environment is not asked.
\<close>

definition example_env :: env where
  "example_env =
     \<lparr>root = ''/w'', repo = ''o/r'', sha = ''abc'',
      getFiles = Inr [''/w/a.md'', ''/w/b.md''],
      launch = None,
      readFile = (\<lambda>p. if p = ''/w/a.md'' then Inr ''A'' else if p = ''/w/b.md'' then Inr ''B''
                       else Inl (Rejected ''ENOENT'')),
      markdownLinkExtractor = (\<lambda>m. if m = ''A'' then [''https://ok.example/'', ''./gone.md''] else []),
      execute = (\<lambda>u. if u = ''https://ok.example/'' then Inr 200
                      else if u = ''https://github.com/o/r/blob/abc//./gone.md'' then Inr 404
                      else Inl (Rejected ''navigation'')),
      fetch = (\<lambda>u. if u = ''https://blocked.example/'' then Inr 200
                    else Inl (Rejected ''network'')),
      regExpEngine = (\<lambda>source. Inl SyntaxError)\<rparr>"

text \<open>The same repository where every link answers 200.\<close>

definition all_ok_env :: env where
  "all_ok_env = example_env\<lparr>execute := (\<lambda>u. Inr 200)\<rparr>"

text \<open>
  The same repository where \<open>a.md\<close> has a link that fails in both strategies, followed
  by a link that answers 200.
\<close>

definition unreachable_env :: env where
  "unreachable_env =
     example_env\<lparr>markdownLinkExtractor :=
       (\<lambda>m. if m = ''A'' then [''https://down.example/'', ''https://ok.example/''] else [])\<rparr>"


section \<open>Facts about the string primitives\<close>

lemma GetSubstitution_no_dollar:
  "CHR ''$'' \<notin> set r \<Longrightarrow> GetSubstitution m b a r = r"
  by (induction m b a r rule: GetSubstitution.induct) auto

lemma GetSubstitution_slash:
  "GetSubstitution m b a (CHR ''/'' # r) = CHR ''/'' # GetSubstitution m b a r"
  by (cases r) auto

lemma segment_matches_here_slash_name:
  "name \<noteq> [] \<Longrightarrow> CHR ''/'' \<notin> set name \<Longrightarrow> segment_matches_here (CHR ''/'' # name)"
  by (simp add: segment_matches_here_def)

lemma segment_matches_here_name:
  "name \<noteq> [] \<Longrightarrow> CHR ''/'' \<notin> set name \<Longrightarrow> segment_matches_here name"
  by (cases name) (auto simp: segment_matches_here_def)

lemma segment_matches_here_inner_slash:
  "\<not> segment_matches_here (c # dir @ CHR ''/'' # name)"
  by (simp add: segment_matches_here_def)

text \<open>The leftmost match in \<open>dir/name\<close> starts at the last slash.\<close>

lemma regex_search_dir:
  "name \<noteq> [] \<Longrightarrow> CHR ''/'' \<notin> set name \<Longrightarrow>
   regex_search pre (dir @ CHR ''/'' # name) = Some (pre @ dir, CHR ''/'' # name)"
proof (induction dir arbitrary: pre)
  case Nil
  then show ?case using segment_matches_here_slash_name by simp
next
  case (Cons c dir)
  then show ?case using segment_matches_here_inner_slash [of c dir name] by simp
qed

text \<open>A name without a slash is matched as a whole.\<close>

lemma regex_search_name:
  "name \<noteq> [] \<Longrightarrow> CHR ''/'' \<notin> set name \<Longrightarrow> regex_search pre name = Some (pre, name)"
  using segment_matches_here_name by (cases name) auto

lemma directory_prefix_dir:
  "CHR ''/'' \<notin> set name \<Longrightarrow> directory_prefix (dir @ CHR ''/'' # name) = dir @ ''/''"
  by (auto simp: directory_prefix_def dropWhile_append3)


section \<open>Path resolution\<close>

text \<open>
  C7, as stated, fails: for a source file without a slash the code puts a slash in
  front of the href instead of keeping the empty directory prefix, and the href is a
  replacement template, so that \<open>$$\<close> in it comes out as a single dollar sign.
\<close>

theorem resolvePath_last_segment_counterexample:
  "resolvePath ''README.md'' ''./x.md'' \<noteq> resolve_as_specified ''README.md'' ''./x.md''
   \<and> resolvePath ''dir/file.md'' ''a$$b.md'' \<noteq> resolve_as_specified ''dir/file.md'' ''a$$b.md''"
  by (simp add: resolvePath_def is_absolute_path_def starts_with_def replace_last_segment_def
      segment_matches_here_def resolve_as_specified_def directory_prefix_def)

text \<open>
  C7 (amended): for every source file of the form \<open>dir/name\<close>, where \<open>name\<close> is not
  empty and has no slash, and every href that does not start with a slash and contains
  no dollar sign, \<open>resolvePath\<close> replaces the last path segment by the href and keeps the
  directory prefix, textually and without normalising: the result is \<open>dir/href\<close>, as
  the rule of the specification says.
\<close>

theorem resolvePath_replaces_last_segment:
  assumes "name \<noteq> []" and "CHR ''/'' \<notin> set name"
    and "\<not> is_absolute_path href" and "CHR ''$'' \<notin> set href"
  shows "resolvePath (dir @ ''/'' @ name) href = dir @ ''/'' @ href
       \<and> resolvePath (dir @ ''/'' @ name) href = resolve_as_specified (dir @ ''/'' @ name) href"
  using assms
  by (simp add: resolvePath_def replace_last_segment_def regex_search_dir [where pre = "[]", simplified]
      GetSubstitution_slash GetSubstitution_no_dollar resolve_as_specified_def directory_prefix_dir)

text \<open>The example of the specification: the segment \<open>./\<close> is kept as it is written.\<close>

theorem resolvePath_replaces_last_segment_witness:
  "resolvePath ''dir/file.md'' ''./other.md'' = ''dir/./other.md''"
  using resolvePath_replaces_last_segment [of "''file.md''" "''./other.md''" "''dir''"]
  by (simp add: is_absolute_path_def starts_with_def)

text \<open>
  C10: for a source file at the scanned root (a name without a slash) and a relative
  href, \<open>resolvePath\<close> puts a slash in front of the href (read as a replacement
  template; an href without a dollar sign is taken as it is), so the address composed
  by \<open>checkLink\<close> has two slashes after the commit.
\<close>

theorem target_url_root_file_double_slash:
  assumes "path \<noteq> []" and "CHR ''/'' \<notin> set path"
    and "\<not> is_fully_qualified href" and "\<not> is_absolute_path href"
  shows "resolvePath path href = CHR ''/'' # GetSubstitution path [] [] href
       \<and> (CHR ''$'' \<notin> set href \<longrightarrow> resolvePath path href = CHR ''/'' # href)
       \<and> target_url e path href =
           ''https://github.com/'' @ repo e @ ''/blob/'' @ sha e @ ''//''
             @ GetSubstitution path [] [] href"
  using assms
  by (simp add: resolvePath_def replace_last_segment_def regex_search_name target_url_def
      githubUrlFromPath_def GetSubstitution_slash GetSubstitution_no_dollar)

theorem target_url_root_file_double_slash_witness:
  "resolvePath ''README.md'' ''./x.md'' = ''/./x.md''
   \<and> target_url example_env ''README.md'' ''./x.md'' = ''https://github.com/o/r/blob/abc//./x.md''"
  using target_url_root_file_double_slash [of "''README.md''" "''./x.md''" example_env]
  by (simp add: is_fully_qualified_def is_absolute_path_def starts_with_def example_env_def)


section \<open>The two strategies of \<open>checkLink\<close>\<close>

text \<open>
  C1: when the page navigation yields a response, whatever its status, the outcome
  carries that status and only the navigation is requested; the HEAD request is made
  exactly when the navigation throws; and when it then succeeds the outcome carries its
  status (the navigation error stays in the outcome as a diagnostic).
\<close>

theorem checkLink_fallback_only_when_primary_throws:
  "(execute e (target_url e path href) = Inr s \<longrightarrow>
      checkLink e path href =
        ([Execute (target_url e path href)],
         Inr \<lparr>status = Some s, original = href, error = None, file' = None\<rparr>))
   \<and> ((\<exists>u. Fetch u \<in> set (fst (checkLink e path href))) \<longleftrightarrow>
        (\<exists>err. execute e (target_url e path href) = Inl err))
   \<and> (execute e (target_url e path href) = Inl err \<and> fetch e (target_url e path href) = Inr s'
        \<longrightarrow> checkLink e path href =
              ([Execute (target_url e path href), Fetch (target_url e path href)],
               Inr \<lparr>status = Some s', original = href, error = Some err, file' = None\<rparr>))"
  by (cases "execute e (target_url e path href)"; cases "fetch e (target_url e path href)")
     (auto simp: checkLink_def Let_def)

lemma example_urls:
  "target_url example_env ''a.md'' ''./gone.md'' = ''https://github.com/o/r/blob/abc//./gone.md''"
  "target_url example_env ''a.md'' ''https://blocked.example/'' = ''https://blocked.example/''"
  by (simp_all add: target_url_def is_fully_qualified_def starts_with_def githubUrlFromPath_def
      resolvePath_def is_absolute_path_def replace_last_segment_def segment_matches_here_def
      example_env_def)

text \<open>A navigation that answers 404, and a navigation that throws before a HEAD request that answers 200.\<close>

theorem checkLink_fallback_only_when_primary_throws_witness:
  "checkLink example_env ''a.md'' ''./gone.md'' =
     ([Execute ''https://github.com/o/r/blob/abc//./gone.md''],
      Inr \<lparr>status = Some 404, original = ''./gone.md'', error = None, file' = None\<rparr>)
   \<and> checkLink example_env ''a.md'' ''https://blocked.example/'' =
     ([Execute ''https://blocked.example/'', Fetch ''https://blocked.example/''],
      Inr \<lparr>status = Some 200, original = ''https://blocked.example/'',
           error = Some (Rejected ''navigation''), file' = None\<rparr>)"
  using checkLink_fallback_only_when_primary_throws
          [of example_env "''a.md''" "''./gone.md''" 404 "Rejected ''navigation''" 200]
        checkLink_fallback_only_when_primary_throws
          [of example_env "''a.md''" "''https://blocked.example/''" 200 "Rejected ''navigation''" 200]
  by (simp add: example_urls) (simp add: example_env_def)

lemma checkLink_status_set:
  "snd (checkLink e path href) = Inr v \<Longrightarrow> \<exists>s. status v = Some s"
  by (auto simp: checkLink_def Let_def split: sum.splits)

lemma report_checks_single:
  "status v = Some s \<Longrightarrow>
   allErrors (fst (report_checks [Inr v] st)) =
     (if 200 \<le> s \<and> s < 300 then allErrors st else allErrors st @ [v])"
  by (auto simp: is_failure_def js_lt_def js_ge_def log_def)

text \<open>
  C6: every outcome that \<open>checkLink\<close> produces has a status, so status and error are
  never both absent; and where an error is kept beside the status, the status alone
  decides whether the report counts the outcome as a failure.
\<close>

theorem checkLink_outcome_status_decides:
  assumes "snd (checkLink e path href) = Inr v"
  shows "(\<exists>s. status v = Some s \<and>
            allErrors (fst (report_checks [Inr v] st)) =
              (if 200 \<le> s \<and> s < 300 then allErrors st else allErrors st @ [v]))
       \<and> \<not> (status v = None \<and> error v = None)"
proof -
  from checkLink_status_set [OF assms] obtain s where s: "status v = Some s" ..
  from report_checks_single [OF s] s show ?thesis by simp
qed

text \<open>An outcome with status 200 and a navigation error beside it is not a failure.\<close>

theorem checkLink_outcome_status_decides_witness:
  "\<exists>v. snd (checkLink example_env ''a.md'' ''https://blocked.example/'') = Inr v
     \<and> status v = Some 200 \<and> error v = Some (Rejected ''navigation'')
     \<and> allErrors (fst (report_checks [Inr v] initial_state)) = []"
proof -
  let ?v = "\<lparr>status = Some 200, original = ''https://blocked.example/'',
              error = Some (Rejected ''navigation''), file' = None\<rparr>"
  have h: "snd (checkLink example_env ''a.md'' ''https://blocked.example/'') = Inr ?v"
    by (simp add: checkLink_def Let_def example_urls) (simp add: example_env_def)
  from checkLink_outcome_status_decides [OF h, of initial_state]
  have "allErrors (fst (report_checks [Inr ?v] initial_state)) = []"
    by (simp add: initial_state_def)
  with h show ?thesis by auto
qed

text \<open>
  C5 fails on the code: when both strategies fail the promise of \<open>checkLink\<close> rejects,
  so there is no outcome; the loop over the settled checks then throws at that entry,
  and neither this link nor the links after it in the file are reported or counted.
  Here the first link of \<open>a.md\<close> is unreachable and the second answers 200.
\<close>

theorem both_strategies_fail_no_outcome:
  "checkLink unreachable_env ''a.md'' ''https://down.example/'' =
     ([Execute ''https://down.example/'', Fetch ''https://down.example/''],
      Inl (Rejected ''network''))
   \<and> main unreachable_env [0, 1] =
       (\<lparr>out = [Separator, Searching ''/w'', Found 2, Separator, Setup 10, Starting,
                FileHeader 1 ''a.md'' 2, FileHeader 2 ''b.md'' 0,
                SummaryOfErrors, Table [], Separator, Complete 2 2 0 2],
         countAllLinks = 2, countFiles = 3, allErrors = []\<rparr>, 0)"
  by code_simp


section \<open>The report of a run\<close>

lemma is_failure_iff:
  "is_failure (Some s) \<longleftrightarrow> \<not> (200 \<le> s \<and> s < 300)"
  "\<not> is_failure None"
  by (auto simp: is_failure_def js_lt_def js_ge_def)

text \<open>In part\_000 the failures collected are the outcomes whose status is outside 200 to 299.\<close>

lemma report_checks_collects_failures:
  "allErrors (fst (report_checks (map Inr vs) st)) =
     allErrors st @ filter (\<lambda>v. is_failure (status v)) vs"
  by (induction vs arbitrary: st) (auto simp: log_def)

text \<open>In part\_001 the error counter counts the outcomes that are not failures.\<close>

lemma report_checks_part_001_counts:
  "countErrors (fst (report_checks_part_001 (map Inr vs) st)) =
     countErrors st + length (filter (\<lambda>v. \<not> is_failure (status v)) vs)"
  by (induction vs arbitrary: st) (auto simp: log_part_001_def)

text \<open>
  C2 fails on the code of part\_001: in a run where both links answer 200 and both are
  printed as successes, the error counter ends at 2 and the run reports "2 of 2 links
  resulted in errors", although no outcome has a status outside 200 to 299.
\<close>

theorem main_part_001_counts_successes_as_errors:
  "main_part_001 all_ok_env [0, 1] =
     (\<lparr>out_part_001 =
         [Separator, Searching ''/w'', Found 2, Separator, Setup 10, Starting,
          FileHeader 1 ''a.md'' 2, LinkOk (Some 200) ''https://ok.example/'',
          LinkOk (Some 200) ''./gone.md'', FileHeader 2 ''b.md'' 0, Separator,
          Complete 2 2 2 2],
       countAllLinks_part_001 = 2, countErrors = 2, countFiles_part_001 = 3\<rparr>, 0)"
  by code_simp

text \<open>
  In the run where one link answers 200 and the other 404, the single error counted is
  the link that answers 200.
\<close>

lemma main_part_001_counts_the_success:
  "countErrors (fst (main_part_001 example_env [0, 1])) = 1
   \<and> countErrors (fst (report_checks_part_001
        [Inr \<lparr>status = Some 404, original = ''./gone.md'', error = None, file' = None\<rparr>]
        initial_state_part_001)) = 0"
  by code_simp

text \<open>No outcome of \<open>checkLink\<close> has the property \<open>file\<close>, so none in \<open>allErrors\<close> has it.\<close>

lemma checkLink_no_file:
  "snd (checkLink e path href) = Inr v \<Longrightarrow> file' v = None"
  by (auto simp: checkLink_def Let_def split: sum.splits)

lemma report_checks_no_file:
  "list_all (\<lambda>c. case c of Inl r \<Rightarrow> True | Inr v \<Rightarrow> file' v = None) cs \<Longrightarrow>
   list_all (\<lambda>v. file' v = None) (allErrors st) \<Longrightarrow>
   list_all (\<lambda>v. file' v = None) (allErrors (fst (report_checks cs st)))"
  by (induction cs st rule: report_checks.induct) (auto simp: log_def)

lemma checks_no_file:
  "list_all (\<lambda>c. case c of Inl r \<Rightarrow> True | Inr v \<Rightarrow> file' v = None)
     (map (\<lambda>href. snd (checkLink e path href)) links)"
  by (auto simp: list_all_iff checkLink_no_file split: sum.splits)

lemma file_task_no_file:
  assumes "list_all (\<lambda>v. file' v = None) (allErrors st)"
  shows "list_all (\<lambda>v. file' v = None) (allErrors (file_task e st p))"
proof (cases "readFile e p")
  case (Inl readError)
  then show ?thesis using assms by (simp add: file_task_def)
next
  case read: (Inr markdown)
  show ?thesis
  proof (cases "stripRoot e p")
    case (Inl syntaxError)
    with read show ?thesis using assms by (simp add: file_task_def Let_def)
  next
    case (Inr stripped)
    with read show ?thesis
      using assms
      by (simp add: file_task_def Let_def)
         (rule report_checks_no_file [OF checks_no_file], simp add: log_def)
  qed
qed

lemma tasks_no_file:
  "list_all (\<lambda>v. file' v = None) (allErrors st) \<Longrightarrow>
   list_all (\<lambda>v. file' v = None) (allErrors (foldl (file_task e) st ps))"
  by (induction ps arbitrary: st) (auto simp: file_task_no_file)

lemma add_rows_no_file:
  "list_all (\<lambda>v. file' v = None) vs \<Longrightarrow>
   add_rows e vs rows = (if vs = [] then Inr rows else Inl TypeError)"
  by (cases vs) (auto simp: stripRoot_of_def)

text \<open>
  Hence the loop that fills the table throws as soon as there is a failure: a run that
  passes the setup exits with code 1 exactly when \<open>allErrors\<close> is not empty, and then
  its last line is the report of the unhandled rejection.
\<close>

lemma main_exit_code:
  assumes "getFiles e = Inr files" and "launch e = None"
  shows "snd (main e order) = (if allErrors (fst (main e order)) = [] then 0 else 1)"
    and "allErrors (fst (main e order)) \<noteq> [] \<Longrightarrow> last (out (fst (main e order))) = Exiting TypeError"
proof -
  let ?st = "foldl (file_task e)
      (log [Starting] (log [Found (length files), Separator, Setup clusterMaxConcurrent]
         (log [Separator, Searching (root e)] initial_state))) (map (\<lambda>i. files ! i) order)"
  have "list_all (\<lambda>v. file' v = None) (allErrors ?st)"
    by (rule tasks_no_file) (simp add: log_def initial_state_def)
  then have rows: "add_rows e (allErrors ?st) [] = (if allErrors ?st = [] then Inr [] else Inl TypeError)"
    by (rule add_rows_no_file)
  show "snd (main e order) = (if allErrors (fst (main e order)) = [] then 0 else 1)"
    using assms rows by (simp add: main_def Let_def log_def unhandledRejection_def)
  show "allErrors (fst (main e order)) \<noteq> [] \<Longrightarrow> last (out (fst (main e order))) = Exiting TypeError"
    using assms rows by (simp add: main_def Let_def log_def unhandledRejection_def split: if_splits)
qed

text \<open>
  C3 fails on the code: with one failing link the loop that fills the table throws,
  the run ends in the handler of unhandled rejections with exit code 1, and neither
  the table nor the totals are printed.
\<close>

theorem main_aborts_summary_on_failure:
  "allErrors (fst (main example_env [0, 1])) \<noteq> []
   \<and> snd (main example_env [0, 1]) = 1
   \<and> out (fst (main example_env [0, 1])) =
       [Separator, Searching ''/w'', Found 2, Separator, Setup 10, Starting,
        FileHeader 1 ''a.md'' 2, LinkOk (Some 200) ''https://ok.example/'',
        LinkFail (Some 404) ''./gone.md'', FileHeader 2 ''b.md'' 0,
        SummaryOfErrors, Exiting TypeError]"
  by code_simp

text \<open>
  C8 fails on the code: the outcome of the failing link has no \<open>file\<close> property, and
  the row of the table cannot be built from it.
\<close>

theorem failing_outcome_has_no_file:
  "allErrors (fst (main example_env [0, 1])) =
     [\<lparr>status = Some 404, original = ''./gone.md'', error = None, file' = None\<rparr>]
   \<and> add_rows example_env (allErrors (fst (main example_env [0, 1]))) [] = Inl TypeError"
  by code_simp

lemma sections_append: "sections (a @ b) = sections a @ sections b"
  by (induction a rule: sections.induct) auto

lemma section_numbers_append: "section_numbers (a @ b) = section_numbers a @ section_numbers b"
  by (induction a rule: section_numbers.induct) auto

text \<open>The loop over the checks of a file prints no section header and leaves the file counter.\<close>

lemma report_checks_sections:
  "sections (out (fst (report_checks cs st))) = sections (out st)
   \<and> section_numbers (out (fst (report_checks cs st))) = section_numbers (out st)
   \<and> countFiles (fst (report_checks cs st)) = countFiles st"
proof (induction cs st rule: report_checks.induct)
  case (3 v rest st)
  then show ?case
    by (auto simp: log_def sections_append section_numbers_append split: option.splits)
qed auto

text \<open>
  A file that can be read, under a root whose pattern compiles, gets one section: it
  carries the current value of the file counter, which goes up by one.
\<close>

lemma file_task_section:
  assumes "readFile e p = Inr markdown" and "rootRegExp e = Inr pattern"
  shows "sections (out (file_task e st p)) = sections (out st) @ [remove_match pattern p]"
    and "section_numbers (out (file_task e st p)) = section_numbers (out st) @ [countFiles st]"
    and "countFiles (file_task e st p) = Suc (countFiles st)"
  using assms
  by (simp_all add: file_task_def stripRoot_def Let_def report_checks_sections log_def
      sections_append section_numbers_append)

lemma tasks_sections:
  assumes "rootRegExp e = Inr pattern" and "\<forall>p\<in>set ps. \<not> isl (readFile e p)"
  shows "sections (out (foldl (file_task e) st ps)) =
           sections (out st) @ map (remove_match pattern) ps
       \<and> section_numbers (out (foldl (file_task e) st ps)) =
           section_numbers (out st) @ [countFiles st..<countFiles st + length ps]
       \<and> countFiles (foldl (file_task e) st ps) = countFiles st + length ps"
  using assms(2)
proof (induction ps arbitrary: st)
  case Nil
  then show ?case by simp
next
  case (Cons p ps)
  from Cons.prems obtain markdown where read: "readFile e p = Inr markdown"
    by (cases "readFile e p") auto
  from Cons.prems have rest: "\<forall>q\<in>set ps. \<not> isl (readFile e q)" by simp
  have upt: "[countFiles st..<countFiles st + Suc (length ps)] =
             countFiles st # [Suc (countFiles st)..<Suc (countFiles st) + length ps]"
    by (simp add: upt_rec)
  show ?case
    using Cons.IH [OF rest, of "file_task e st p"] file_task_section [OF read assms(1), of st] upt
    by simp
qed

lemma completion_order_in_range:
  assumes "is_completion_order n order" and "i \<in> set order"
  shows "i < n"
proof -
  have "set order = set (sort order)" by simp
  also have "\<dots> = {0..<n}" using assms(1) by (simp add: is_completion_order_def)
  finally show ?thesis using assms(2) by simp
qed

lemma completion_order_length:
  assumes "is_completion_order n order"
  shows "length order = n"
proof -
  have "length order = length (sort order)" by simp
  also have "\<dots> = n" using assms by (simp add: is_completion_order_def)
  finally show ?thesis .
qed

text \<open>
  C4, as stated, fails: when \<open>b.md\<close>, which has no link, completes before \<open>a.md\<close>,
  its section is printed first, although \<open>a.md\<close> was discovered first.
\<close>

theorem main_sections_discovery_order_counterexample:
  "getFiles all_ok_env = Inr [''/w/a.md'', ''/w/b.md'']
   \<and> map (stripRoot all_ok_env) [''/w/a.md'', ''/w/b.md''] = [Inr ''a.md'', Inr ''b.md'']
   \<and> is_completion_order 2 [1, 0]
   \<and> sections (out (fst (main all_ok_env [1, 0]))) = [''b.md'', ''a.md'']
   \<and> sections (out (fst (main all_ok_env [1, 0]))) \<noteq> [''a.md'', ''b.md'']"
  by code_simp

text \<open>
  C4 (amended): for every run over discovered files that can all be read, under a root
  whose pattern compiles, the report lists the per-file sections in the order in which
  the checks of the files complete, and numbers them from 1 in that order. The name
  of a section is the path of the file with the match of the root pattern removed.
\<close>

theorem main_sections_in_completion_order:
  assumes "getFiles e = Inr files" and "launch e = None"
    and "rootRegExp e = Inr pattern"
    and "is_completion_order (length files) order"
    and "\<forall>p\<in>set files. \<not> isl (readFile e p)"
  shows "sections (out (fst (main e order))) = map (\<lambda>i. remove_match pattern (files ! i)) order
       \<and> section_numbers (out (fst (main e order))) = [1..<Suc (length files)]"
proof -
  let ?ps = "map (\<lambda>i. files ! i) order"
  let ?st2 = "log [Starting] (log [Found (length files), Separator, Setup clusterMaxConcurrent]
                (log [Separator, Searching (root e)] initial_state))"
  let ?st3 = "foldl (file_task e) ?st2 ?ps"
  have readable: "\<forall>p\<in>set ?ps. \<not> isl (readFile e p)"
    using assms(4,5) completion_order_in_range [of "length files" order] by auto
  have start: "sections (out ?st2) = []" "section_numbers (out ?st2) = []" "countFiles ?st2 = 1"
    by (simp_all add: log_def initial_state_def)
  have len: "length ?ps = length files"
    using completion_order_length [OF assms(4)] by simp
  from tasks_sections [OF assms(3) readable, of ?st2] start len
  have tasks: "sections (out ?st3) = map (\<lambda>i. remove_match pattern (files ! i)) order"
    "section_numbers (out ?st3) = [1..<Suc (length files)]"
    by (simp_all add: comp_def)
  have final: "sections (out (fst (main e order))) = sections (out ?st3)"
    "section_numbers (out (fst (main e order))) = section_numbers (out ?st3)"
    using assms(1,2)
    by (simp_all add: main_def Let_def log_def unhandledRejection_def sections_append
        section_numbers_append split: sum.splits)
  from tasks final show ?thesis by simp
qed

lemma all_ok_run:
  "getFiles all_ok_env = Inr [''/w/a.md'', ''/w/b.md'']"
  "launch all_ok_env = None"
  "rootRegExp all_ok_env =
     Inr (\<lambda>path. if starts_with ''/w/'' path then Some (0, 3) else None)"
  "is_completion_order (length [''/w/a.md'', ''/w/b.md'']) [1, 0]"
  "\<forall>p\<in>set [''/w/a.md'', ''/w/b.md'']. \<not> isl (readFile all_ok_env p)"
  by (simp_all add: all_ok_env_def example_env_def is_completion_order_def upt_rec
      rootRegExp_def syntax_characters_def fun_eq_iff)

text \<open>With \<open>b.md\<close> completing first, its section is number 1 and that of \<open>a.md\<close> number 2.\<close>

theorem main_sections_in_completion_order_witness:
  "sections (out (fst (main all_ok_env [1, 0]))) = [''b.md'', ''a.md'']
   \<and> section_numbers (out (fst (main all_ok_env [1, 0]))) = [1, 2]"
  using main_sections_in_completion_order [OF all_ok_run]
  by (simp add: remove_match_def starts_with_def upt_rec)

end
